theory Spec2Isabelle
  imports Main "HOL-Library.Word"
begin

section \<open>JavaScript values\<close>

text \<open>
  The stack items of \<^verbatim>\<open>BaseItems.ts\<close> (the TeX input jax) are modelled here.
  A JavaScript string is the list of its UTF-16 code units, so that \<^verbatim>\<open>c.length\<close>
  is \<open>length c\<close> and the glyphs U+0338, U+29F8 are single units. Kinds, property
  keys and attribute names are identifiers of the source and stay HOL strings;
  \<open>js\<close> embeds a literal of the source into the data strings.
\<close>

type_synonym jstring = "16 word list"

definition js :: "string \<Rightarrow> jstring" where
  "js s = map of_char s"

definition backslash :: char where
  "backslash = CHR 0x5C"

text \<open>
  A value is what a property, an attribute or a child slot can hold. Numbers are
  the integers (the source stores dimensions as strings); \<open>VUndefined\<close> is what
  reading a missing property or a hole of an array gives. A tree node is an element
  with its kind, attributes, properties and child slots, or a text node.
\<close>

datatype val = VUndefined | VNull | VBool bool | VNum int | VStr jstring | VNode node
  and node = Element string "(string \<times> val) list" "(string \<times> val) list" "val list"
           | TextNode jstring

fun truthy :: "val \<Rightarrow> bool" where
  "truthy VUndefined = False"
| "truthy VNull = False"
| "truthy (VBool b) = b"
| "truthy (VNum n) = (n \<noteq> 0)"
| "truthy (VStr s) = (s \<noteq> [])"
| "truthy (VNode n) = True"

text \<open>The test \<^verbatim>\<open>v != null\<close>: false for null and for undefined.\<close>

fun not_null :: "val \<Rightarrow> bool" where
  "not_null VUndefined = False"
| "not_null VNull = False"
| "not_null v = True"

fun opt_val :: "node option \<Rightarrow> val" where
  "opt_val None = VUndefined"
| "opt_val (Some n) = VNode n"

text \<open>Reading index \<open>i\<close> of an array: undefined out of range.\<close>

definition js_nth :: "'a list \<Rightarrow> nat \<Rightarrow> 'a option" where
  "js_nth xs i = (if i < length xs then Some (xs ! i) else None)"

text \<open>Writing index \<open>i\<close> of an array: JavaScript extends the array, leaving holes.\<close>

definition js_set :: "val list \<Rightarrow> nat \<Rightarrow> val \<Rightarrow> val list" where
  "js_set xs i v =
     (if i < length xs then xs[i := v]
      else xs @ replicate (i - length xs) VUndefined @ [v])"

text \<open>Assigning a key of an object: an existing key keeps its place.\<close>

fun assign :: "string \<Rightarrow> val \<Rightarrow> (string \<times> val) list \<Rightarrow> (string \<times> val) list" where
  "assign k v [] = [(k, v)]"
| "assign k v (p # ps) = (if fst p = k then (k, v) # ps else p # assign k v ps)"

fun assign_all :: "(string \<times> val) list \<Rightarrow> (string \<times> val) list \<Rightarrow> (string \<times> val) list" where
  "assign_all [] ps = ps"
| "assign_all (kv # kvs) ps = assign_all kvs (assign (fst kv) (snd kv) ps)"

fun lookup :: "(string \<times> val) list \<Rightarrow> string \<Rightarrow> val" where
  "lookup [] k = VUndefined"
| "lookup (p # ps) k = (if fst p = k then snd p else lookup ps k)"

section \<open>The node builder\<close>

text \<open>
  \<^verbatim>\<open>TreeHelper.ts\<close> is not among the sources. The spec gives the node builder as
  \<^verbatim>\<open>createElementNode(type, children, attributes, textContent?)\<close>, \<^verbatim>\<open>setAttribute\<close>,
  \<^verbatim>\<open>setChildAt(index, node)\<close> and the query \<^verbatim>\<open>isType\<close>; a node has a type tag, a
  mapping of attributes and an ordered sequence of children, a text node holds a
  string. The functions below follow these words; each works on the node it is given
  and returns the changed node.
\<close>

text \<open>Modelled from the spec: \<^verbatim>\<open>TreeHelper.createText\<close>, a text node holding the string.\<close>

definition createText :: "jstring \<Rightarrow> node" where
  "createText s = TextNode s"

text \<open>
  Modelled from the spec: \<^verbatim>\<open>TreeHelper.createNode(kind, children, def, text?)\<close>, the
  spec's \<^verbatim>\<open>createElementNode\<close>. The optional text content is the last child.
\<close>

definition createNode :: "string \<Rightarrow> val list \<Rightarrow> (string \<times> val) list \<Rightarrow> node option \<Rightarrow> node" where
  "createNode k children def text =
     Element k def [] (children @ (case text of None \<Rightarrow> [] | Some t \<Rightarrow> [VNode t]))"

text \<open>Modelled from the spec: \<^verbatim>\<open>TreeHelper.isType\<close>, the query on the type tag.\<close>

fun isType :: "node \<Rightarrow> string \<Rightarrow> bool" where
  "isType (Element k as ps cs) k' = (k = k')"
| "isType (TextNode s) k' = (k' = ''text'')"

text \<open>Modelled from the spec: \<^verbatim>\<open>TreeHelper.getChildren\<close>, the ordered children.\<close>

fun getChildren :: "node \<Rightarrow> val list" where
  "getChildren (Element k as ps cs) = cs"
| "getChildren (TextNode s) = []"

text \<open>
  Modelled from the spec: \<^verbatim>\<open>TreeHelper.setData(node, i, child)\<close>, the spec's
  \<^verbatim>\<open>setChildAt\<close>: the assignment \<^verbatim>\<open>children[i] = child\<close>.
\<close>

fun setData :: "node \<Rightarrow> nat \<Rightarrow> val \<Rightarrow> node" where
  "setData (Element k as ps cs) i v = Element k as ps (js_set cs i v)"
| "setData (TextNode s) i v = TextNode s"

text \<open>Modelled from the spec: \<^verbatim>\<open>TreeHelper.appendChildren\<close>, children added at the end.\<close>

fun appendChildren :: "node \<Rightarrow> val list \<Rightarrow> node" where
  "appendChildren (Element k as ps cs) vs = Element k as ps (cs @ vs)"
| "appendChildren (TextNode s) vs = TextNode s"

text \<open>Modelled from the spec: \<^verbatim>\<open>TreeHelper.setAttribute\<close>, one attribute assigned.\<close>

fun setAttribute :: "node \<Rightarrow> string \<Rightarrow> val \<Rightarrow> node" where
  "setAttribute (Element k as ps cs) a v = Element k (assign a v as) ps cs"
| "setAttribute (TextNode s) a v = TextNode s"

text \<open>Modelled from the spec: \<^verbatim>\<open>TreeHelper.getAttribute\<close>, one attribute read.\<close>

fun getAttribute :: "node \<Rightarrow> string \<Rightarrow> val" where
  "getAttribute (Element k as ps cs) a = lookup as a"
| "getAttribute (TextNode s) a = VUndefined"

text \<open>
  Modelled from the spec: \<^verbatim>\<open>TreeHelper.setProperties\<close>, the properties of a node (the
  flags \<^verbatim>\<open>variantForm\<close>, \<^verbatim>\<open>withDelims\<close>, \<^verbatim>\<open>movesupsub\<close>) assigned in order.
\<close>

fun setProperties :: "node \<Rightarrow> (string \<times> val) list \<Rightarrow> node" where
  "setProperties (Element k as ps cs) kvs = Element k as (assign_all kvs ps) cs"
| "setProperties (TextNode s) kvs = TextNode s"

text \<open>Modelled from the spec: \<^verbatim>\<open>TreeHelper.getProperty\<close>, one property of a node read.\<close>

fun node_getProperty :: "node \<Rightarrow> string \<Rightarrow> val" where
  "node_getProperty (Element k as ps cs) p = lookup ps p"
| "node_getProperty (TextNode s) p = VUndefined"

section \<open>Stack items\<close>

text \<open>
  The shared data of a stack item. The getters \<^verbatim>\<open>kind\<close>, \<^verbatim>\<open>isOpen\<close>, \<^verbatim>\<open>isClose\<close>
  and \<^verbatim>\<open>isFinal\<close> of a class are fields, set by the class's constructor, so that an
  incoming item of a class defined elsewhere is an item too.
\<close>

record item =
  kind :: string
  isOpen :: bool
  isClose :: bool
  isFinal :: bool
  nodes :: "node list"
  properties :: "string \<rightharpoonup> val"
  errors :: "string \<rightharpoonup> val list"

record array_item = item +
  table :: "node list"
  row :: "node list"
  frame :: "jstring list"
  hfill :: "int list"
  arraydef :: "string \<rightharpoonup> val"
  dashed :: bool

datatype error =
    TexError "val list"
  | TexError_undefined
  | StackMismatch
  | JsTypeError

text \<open>
  What \<^verbatim>\<open>checkItem\<close> returns: \<^verbatim>\<open>true\<close>, \<^verbatim>\<open>false\<close>, nothing, one item, or an
  array of nodes and items.
\<close>

datatype elem = ENode node | EItem item

datatype check = CTrue | CFalse | CUndefined | CItem item | CList "elem list"

fun check_truthy :: "check \<Rightarrow> bool" where
  "check_truthy CTrue = True"
| "check_truthy CFalse = False"
| "check_truthy CUndefined = False"
| "check_truthy (CItem i) = True"
| "check_truthy (CList es) = True"

text \<open>
  \<^verbatim>\<open>StackItem.ts\<close>, with the class \<^verbatim>\<open>BaseItem\<close>, is not among the sources. The spec
  gives an item its \<^verbatim>\<open>kind\<close>, its \<^verbatim>\<open>nodes\<close> (the ordered payload), its \<^verbatim>\<open>properties\<close>
  and its \<^verbatim>\<open>errors\<close>; the accessors below read them.
\<close>

text \<open>Modelled from the spec: \<^verbatim>\<open>BaseItem.isKind\<close>, the test of the kind tag.\<close>

definition isKind :: "('a item_scheme) \<Rightarrow> string \<Rightarrow> bool" where
  "isKind it k = (kind it = k)"

text \<open>
  Modelled from the spec: the getter \<^verbatim>\<open>BaseItem.Top\<close>, the last node of the payload,
  undefined on an empty payload.
\<close>

definition Top :: "('a item_scheme) \<Rightarrow> node option" where
  "Top it = (if nodes it = [] then None else Some (last (nodes it)))"

text \<open>
  Modelled from the spec: \<^verbatim>\<open>BaseItem.TopN(n)\<close>, the last \<open>n\<close> nodes of the payload as
  \<^verbatim>\<open>nodes.slice(Size - n)\<close>, a negative start counting from the end.
\<close>

definition TopN :: "('a item_scheme) \<Rightarrow> nat \<Rightarrow> node list" where
  "TopN it n =
     (let s = int (length (nodes it));
          start = s - int n;
          from = (if start < 0 then max (s + start) 0 else min start s)
      in drop (nat from) (nodes it))"

text \<open>
  Modelled from the spec: \<^verbatim>\<open>BaseItem.getProperty\<close>, a lookup in \<^verbatim>\<open>properties\<close>,
  undefined for a key that is not set.
\<close>

definition getProperty :: "('a item_scheme) \<Rightarrow> string \<Rightarrow> val" where
  "getProperty it k = (case properties it k of None \<Rightarrow> VUndefined | Some v \<Rightarrow> v)"

text \<open>
  Modelled from the spec: \<^verbatim>\<open>BaseItem.getName\<close>, the property \<^verbatim>\<open>name\<close> (the one the
  constructor of the over item sets).
\<close>

definition getName :: "('a item_scheme) \<Rightarrow> val" where
  "getName it = getProperty it ''name''"

text \<open>
  A node is shared by reference: when \<^verbatim>\<open>checkItem\<close> changes the top node of the
  incoming item in place and returns the item, the item holds the changed node.
\<close>

definition with_Top :: "item \<Rightarrow> node \<Rightarrow> item" where
  "with_Top it n = (if nodes it = [] then it else it\<lparr>nodes := butlast (nodes it) @ [n]\<rparr>)"

text \<open>
  Modelled from the spec: \<^verbatim>\<open>StackItemFactory.create('mml', node)\<close> (StackItemFactory.ts
  is not among the sources). The spec: an mml item is a transient carrier wrapping
  exactly one completed tree node, always final. Its class \<^verbatim>\<open>MmlItem\<close> is in the
  source: kind \<^verbatim>\<open>mml\<close>, \<^verbatim>\<open>isFinal\<close> true.
\<close>

definition factory_create_mml :: "node \<Rightarrow> item" where
  "factory_create_mml n =
     \<lparr>kind = ''mml'', isOpen = False, isClose = False, isFinal = True,
      nodes = [n], properties = Map.empty, errors = Map.empty\<rparr>"

text \<open>
  \<^verbatim>\<open>new TexError(e)\<close> with \<^verbatim>\<open>e\<close> read from the \<^verbatim>\<open>errors\<close> of an item: the registered
  array, or undefined when none is registered under the key.
\<close>

fun TexError_of :: "val list option \<Rightarrow> error" where
  "TexError_of None = TexError_undefined"
| "TexError_of (Some e) = TexError e"

text \<open>
  Modelled from the spec: \<^verbatim>\<open>BaseItem.checkItem\<close> (StackItem.ts is not among the
  sources). The spec: if the incoming item is a close item and no specific error is
  registered for its kind, signal a generic stack mismatch failure; if an error is
  registered for that close kind, fail with that specific message; otherwise treat
  the item as an implicit open (return true).
\<close>

definition BaseItem_checkItem :: "('a item_scheme) \<Rightarrow> item \<Rightarrow> error + check" where
  "BaseItem_checkItem self it =
     (if isClose it then
        (case errors self (kind it) of
           None \<Rightarrow> Inl StackMismatch
         | Some e \<Rightarrow> Inl (TexError e))
      else Inr CTrue)"

text \<open>
  The parts of the library that the stack items call and that are not among the
  sources are parameters of the model: \<^verbatim>\<open>toMml\<close> of the base item, the fences of
  \<^verbatim>\<open>ParseUtil\<close>, the operator queries and \<^verbatim>\<open>getText\<close> of \<^verbatim>\<open>TreeHelper\<close>, the
  \<^verbatim>\<open>not_remap\<close> character map (\<^verbatim>\<open>contains\<close> and the \<^verbatim>\<open>char\<close> of \<^verbatim>\<open>lookup\<close>), the
  index \<^verbatim>\<open>sup\<close> of an msubsup node, the constants \<^verbatim>\<open>TEXCLASS.NONE\<close>, \<^verbatim>\<open>TEXCLASS.REL\<close>
  and \<^verbatim>\<open>Entities.ENTITIES.ApplyFunction\<close>, and the conversion of a value to a string.
\<close>

record helpers =
  toMml :: "item \<Rightarrow> bool \<Rightarrow> node"
  fenced :: "val \<Rightarrow> node \<Rightarrow> val \<Rightarrow> node"
  fixedFence :: "val \<Rightarrow> node \<Rightarrow> val \<Rightarrow> node"
  isEmbellished :: "node \<Rightarrow> bool"
  getCoreMO :: "node \<Rightarrow> node"
  getForm :: "node \<Rightarrow> int list option"
  getText :: "node \<Rightarrow> jstring"
  remap :: "jstring \<rightharpoonup> jstring"
  msubsup_sup :: "node \<Rightarrow> nat"
  TEXCLASS_NONE :: val
  TEXCLASS_REL :: val
  ApplyFunction :: jstring
  ToString :: "val \<Rightarrow> jstring"

section \<open>The items of BaseItems.ts\<close>

subsection \<open>PrimeItem\<close>

text \<open>
  \<^verbatim>\<open>let [top0, top1] = this.TopN(2)\<close>: a missing element is undefined. \<^verbatim>\<open>isType\<close>
  reads its node, so an undefined \<^verbatim>\<open>top0\<close> is a type error of JavaScript.
\<close>

definition PrimeItem_checkItem :: "helpers \<Rightarrow> item \<Rightarrow> item \<Rightarrow> error + check" where
  "PrimeItem_checkItem H self it =
     (let tops = TopN self 2;
          top0 = js_nth tops 0;
          top1 = js_nth tops 1
      in case top0 of
           None \<Rightarrow> Inl JsTypeError
         | Some t0 \<Rightarrow>
             if \<not> isType t0 ''msubsup'' then
               Inr (CList [ENode (createNode ''msup'' [VNode t0, opt_val top1] [] None), EItem it])
             else
               Inr (CList [ENode (setData t0 (msubsup_sup H t0) (opt_val top1)), EItem it]))"

subsection \<open>SubsupItem\<close>

definition MissingScript :: "val list" where
  "MissingScript =
     [VStr (js ''MissingScript''), VStr (js ''Missing superscript or subscript argument'')]"

definition MissingOpenForSup :: "val list" where
  "MissingOpenForSup =
     [VStr (js ''MissingOpenForSup''), VStr (js ''Missing open brace for superscript'')]"

definition MissingOpenForSub :: "val list" where
  "MissingOpenForSub =
     [VStr (js ''MissingOpenForSub''), VStr (js ''Missing open brace for subscript'')]"

text \<open>
  The constructor, applied to the item that \<^verbatim>\<open>super(factory, ...nodes)\<close> has built.
\<close>

definition SubsupItem :: "item \<Rightarrow> item" where
  "SubsupItem base =
     base\<lparr>kind := ''subsup'',
          errors := (errors base)(''stop'' \<mapsto> MissingScript,
                                  ''sup'' \<mapsto> MissingOpenForSup,
                                  ''sub'' \<mapsto> MissingOpenForSub)\<rparr>"

text \<open>
  \<^verbatim>\<open>['', 'sub', 'sup'][position]\<close> as a key of \<^verbatim>\<open>errors\<close>; an index out of the array
  gives undefined, which as a key is the string \<^verbatim>\<open>undefined\<close>. The source casts
  \<^verbatim>\<open>position\<close> to a number.
\<close>

fun script_key :: "val \<Rightarrow> string" where
  "script_key (VNum n) =
     (if n = 0 then [] else if n = 1 then ''sub'' else if n = 2 then ''sup''
      else ''undefined'')"
| "script_key v = ''undefined''"

text \<open>
  \<^verbatim>\<open>setData(top, position, v)\<close> with the position a value: a number from 0 on is a
  child slot; any other key leaves the child slots as they are.
\<close>

fun setData_at :: "node \<Rightarrow> val \<Rightarrow> val \<Rightarrow> node" where
  "setData_at n (VNum i) v = (if 0 \<le> i then setData n (nat i) v else n)"
| "setData_at n p v = n"

text \<open>
  The primes of the branch "Prime on Prime": flagged \<^verbatim>\<open>variantForm\<close> and put in an
  mrow before the incoming node. \<^verbatim>\<open>setProperties\<close> needs a node.
\<close>

fun primes_row :: "val \<Rightarrow> val \<Rightarrow> error + val" where
  "primes_row (VNode p) v =
     Inr (VNode (createNode ''mrow''
                   [VNode (setProperties p [(''variantForm'', VBool True)]), v] [] None))"
| "primes_row p v = Inl JsTypeError"

definition SubsupItem_mml :: "item \<Rightarrow> node \<Rightarrow> val \<Rightarrow> error + check" where
  "SubsupItem_mml self top0 itemTop =
     (let position = getProperty self ''position'';
          top' = setData_at top0 position itemTop;
          top'' = (if not_null (getProperty self ''movesupsub'')
                   then setProperties top' [(''movesupsub'', getProperty self ''movesupsub'')]
                   else top')
      in Inr (CItem (factory_create_mml top'')))"

definition SubsupItem_checkItem :: "helpers \<Rightarrow> item \<Rightarrow> item \<Rightarrow> error + check" where
  "SubsupItem_checkItem H self it =
     (if isKind it ''open'' \<or> isKind it ''left'' then Inr CTrue
      else
        let position = getProperty self ''position'' in
        if isKind it ''mml'' then
          (case Top self of
             None \<Rightarrow> Inl JsTypeError
           | Some top0 \<Rightarrow>
               if truthy (getProperty self ''primes'') then
                 if position \<noteq> VNum 2 then
                   SubsupItem_mml self (setData top0 2 (getProperty self ''primes''))
                     (opt_val (Top it))
                 else
                   (case primes_row (getProperty self ''primes'') (opt_val (Top it)) of
                      Inl e \<Rightarrow> Inl e
                    | Inr node \<Rightarrow> SubsupItem_mml self top0 node)
               else SubsupItem_mml self top0 (opt_val (Top it)))
        else
          (case BaseItem_checkItem self it of
             Inl e \<Rightarrow> Inl e
           | Inr r \<Rightarrow>
               if check_truthy r then Inl (TexError_of (errors self (script_key position)))
               else Inr CUndefined))"

subsection \<open>OverItem\<close>

definition OverItem :: "item \<Rightarrow> item" where
  "OverItem base =
     base\<lparr>kind := ''over'', isClose := True,
          properties := (properties base)(''name'' \<mapsto> VStr (js (backslash # ''over'')))\<rparr>"

definition OverItem_checkItem :: "helpers \<Rightarrow> item \<Rightarrow> item \<Rightarrow> error + check" where
  "OverItem_checkItem H self it =
     (if isKind it ''over'' then
        Inl (TexError [VStr (js ''AmbiguousUseOf''), VStr (js ''Ambiguous use of %1''),
                       getName it])
      else if isClose it then
        (let mml = createNode ''mfrac'' [getProperty self ''num'', VNode (toMml H self False)]
                     [] None;
             mml' = (if not_null (getProperty self ''thickness'')
                     then setAttribute mml ''linethickness'' (getProperty self ''thickness'')
                     else mml);
             mml'' = (if truthy (getProperty self ''open'') \<or> truthy (getProperty self ''close'')
                      then fixedFence H (getProperty self ''open'')
                             (setProperties mml' [(''withDelims'', VBool True)])
                             (getProperty self ''close'')
                      else mml')
         in Inr (CList [EItem (factory_create_mml mml''), EItem it]))
      else BaseItem_checkItem self it)"

subsection \<open>LeftItem and RightItem\<close>

definition ExtraLeftMissingRight :: "val list" where
  "ExtraLeftMissingRight =
     [VStr (js ''ExtraLeftMissingRight''),
      VStr (js (''Extra '' @ backslash # ''left or missing '' @ backslash # ''right''))]"

definition LeftItem :: "item \<Rightarrow> item" where
  "LeftItem base =
     base\<lparr>kind := ''left'', isOpen := True,
          properties := (properties base)(''delim'' \<mapsto> VStr (js ''('')),
          errors := (errors base)(''stop'' \<mapsto> ExtraLeftMissingRight)\<rparr>"

definition RightItem :: "item \<Rightarrow> item" where
  "RightItem base =
     base\<lparr>kind := ''right'', isClose := True,
          properties := (properties base)(''delim'' \<mapsto> VStr (js '')''))\<rparr>"

definition LeftItem_checkItem :: "helpers \<Rightarrow> item \<Rightarrow> item \<Rightarrow> error + check" where
  "LeftItem_checkItem H self it =
     (if isKind it ''right'' then
        Inr (CItem (factory_create_mml
               (fenced H (getProperty self ''delim'') (toMml H self True)
                  (getProperty it ''delim''))))
      else BaseItem_checkItem self it)"

subsection \<open>BeginItem\<close>

definition EnvBadEnd :: "val \<Rightarrow> val \<Rightarrow> val list" where
  "EnvBadEnd b e =
     [VStr (js ''EnvBadEnd''),
      VStr (js (backslash # ''begin{%1} ended with '' @ backslash # ''end{%2}'')), b, e]"

definition EnvMissingEnd :: "val \<Rightarrow> val list" where
  "EnvMissingEnd b =
     [VStr (js ''EnvMissingEnd''), VStr (js (''Missing '' @ backslash # ''end{%1}'')), b]"

definition BeginItem_checkItem :: "helpers \<Rightarrow> item \<Rightarrow> item \<Rightarrow> error + check" where
  "BeginItem_checkItem H self it =
     (if isKind it ''end'' then
        if getName it \<noteq> getName self then
          Inl (TexError (EnvBadEnd (getName self) (getName it)))
        else if \<not> truthy (getProperty self ''end'') then
          Inr (CItem (factory_create_mml (toMml H self True)))
        else Inr CUndefined
      else if isKind it ''stop'' then
        Inl (TexError (EnvMissingEnd (getName self)))
      else BaseItem_checkItem self it)"

subsection \<open>FnItem\<close>

definition fn_table :: "int list" where
  "fn_table = [0, 0, 1, 1, 0, 1, 1, 0, 0, 0]"

text \<open>
  The test \<^verbatim>\<open>[0, 0, 1, 1, 0, 1, 1, 0, 0, 0][form[2]]\<close>: undefined, hence false, when
  the form has no third entry or the entry is not an index of the table.
\<close>

definition form_flag :: "int list \<Rightarrow> bool" where
  "form_flag form =
     (case js_nth form 2 of
        None \<Rightarrow> False
      | Some k \<Rightarrow>
          0 \<le> k \<and> (case js_nth fn_table (nat k) of None \<Rightarrow> False | Some b \<Rightarrow> b \<noteq> 0))"

definition apply_function_node :: "helpers \<Rightarrow> node" where
  "apply_function_node H =
     createNode ''mo'' [] [(''texClass'', TEXCLASS_NONE H)] (Some (createText (ApplyFunction H)))"

definition FnItem_checkItem :: "helpers \<Rightarrow> item \<Rightarrow> item \<Rightarrow> error + check" where
  "FnItem_checkItem H self it =
     (case Top self of
        Some top0 \<Rightarrow>
          if isOpen it then Inr CTrue
          else if \<not> isKind it ''fn'' then
            (case Top it of
               None \<Rightarrow> Inr (CList [ENode top0, EItem it])
             | Some mml \<Rightarrow>
                 if \<not> isKind it ''mml'' then Inr (CList [ENode top0, EItem it])
                 else if isType mml ''mspace'' then Inr (CList [ENode top0, EItem it])
                 else
                   (let mml' = (if isEmbellished H mml then getCoreMO H mml else mml)
                    in case getForm H mml' of
                         None \<Rightarrow>
                           Inr (CList [ENode top0, ENode (apply_function_node H), EItem it])
                       | Some form \<Rightarrow>
                           if form_flag form then Inr (CList [ENode top0, EItem it])
                           else
                             Inr (CList [ENode top0, ENode (apply_function_node H), EItem it])))
          else Inr (CList [ENode top0, ENode (apply_function_node H), EItem it])
      | None \<Rightarrow> BaseItem_checkItem self it)"

subsection \<open>NotItem\<close>

definition not_overlay :: "helpers \<Rightarrow> node" where
  "not_overlay H =
     (let textNode = createText [0x29F8];
          mtextNode = createNode ''mtext'' [] [] (Some textNode);
          paddedNode = createNode ''mpadded'' [VNode mtextNode] [(''width'', VNum 0)] None
      in createNode ''TeXAtom'' [VNode paddedNode] [(''texClass'', TEXCLASS_REL H)] None)"

text \<open>
  The first test of an mml item reads the top node of the incoming item through
  \<^verbatim>\<open>isType\<close>: a type error of JavaScript when the item holds no node.
\<close>

definition NotItem_checkItem :: "helpers \<Rightarrow> item \<Rightarrow> item \<Rightarrow> error + check" where
  "NotItem_checkItem H self it =
     (if isKind it ''open'' \<or> isKind it ''left'' then Inr CTrue
      else if isKind it ''mml'' then
        (case Top it of
           None \<Rightarrow> Inl JsTypeError
         | Some mml \<Rightarrow>
             if isType mml ''mo'' \<or> isType mml ''mi'' \<or> isType mml ''mtext'' then
               (let c = getText H mml in
                if length c = 1 \<and> \<not> truthy (node_getProperty mml ''movesupsub'') \<and>
                   length (getChildren mml) = 1
                then
                  (case remap H c of
                     Some r \<Rightarrow> Inr (CItem (with_Top it (setData mml 0 (VNode (createText r)))))
                   | None \<Rightarrow>
                       Inr (CItem (with_Top it (appendChildren mml [VNode (createText [0x0338])]))))
                else Inr (CList [ENode (not_overlay H), EItem it]))
             else Inr (CList [ENode (not_overlay H), EItem it]))
      else Inr (CList [ENode (not_overlay H), EItem it]))"

subsection \<open>ArrayItem.checkLines\<close>

text \<open>\<^verbatim>\<open>s.split(/ /)\<close> and \<^verbatim>\<open>lines.join(' ')\<close> on code units.\<close>

fun split_space :: "jstring \<Rightarrow> jstring list" where
  "split_space [] = [[]]"
| "split_space (c # cs) =
     (if c = 0x20 then [] # split_space cs
      else (case split_space cs of
              [] \<Rightarrow> [[c]]
            | w # ws \<Rightarrow> (c # w) # ws))"

fun join_space :: "jstring list \<Rightarrow> jstring" where
  "join_space [] = []"
| "join_space [w] = w"
| "join_space (w # ws) = w @ 0x20 # join_space ws"

definition arraydef_get :: "array_item \<Rightarrow> string \<Rightarrow> val" where
  "arraydef_get self k = (case arraydef self k of None \<Rightarrow> VUndefined | Some v \<Rightarrow> v)"

text \<open>
  The first statement of \<^verbatim>\<open>checkLines\<close>. \<^verbatim>\<open>split\<close> exists on strings only: a
  truthy value of another type is a type error of JavaScript.
\<close>

definition checkLines_rowlines :: "array_item \<Rightarrow> error + array_item" where
  "checkLines_rowlines self =
     (if truthy (arraydef_get self ''rowlines'') then
        (case arraydef_get self ''rowlines'' of
           VStr s \<Rightarrow>
             (let lines = split_space s in
              if length lines = length (table self) then
                Inr (self\<lparr>frame := frame self @ [js ''bottom''],
                          arraydef := (arraydef self)(''rowlines'' \<mapsto>
                                         VStr (join_space (butlast lines)))\<rparr>)
              else if int (length lines) < int (length (table self)) - 1 then
                Inr (self\<lparr>arraydef := (arraydef self)(''rowlines'' \<mapsto> VStr (s @ js '' none''))\<rparr>)
              else Inr self)
         | _ \<Rightarrow> Inl JsTypeError)
      else Inr self)"

text \<open>The loop \<^verbatim>\<open>while (rows.length < this.table.length) rows.push(e)\<close>.\<close>

function push_rows :: "jstring list \<Rightarrow> nat \<Rightarrow> jstring \<Rightarrow> jstring list" where
  "push_rows rows n e = (if length rows < n then push_rows (rows @ [e]) n e else rows)"
  by pat_completeness auto
termination
  by (relation "measure (\<lambda>(rows, n, e). n - length rows)") auto

definition checkLines_rowspacing :: "helpers \<Rightarrow> array_item \<Rightarrow> error + array_item" where
  "checkLines_rowspacing H self =
     (if truthy (getProperty self ''rowspacing'') then
        (case arraydef_get self ''rowspacing'' of
           VStr s \<Rightarrow>
             (let rows = push_rows (split_space s) (length (table self))
                           (ToString H (getProperty self ''rowspacing'') @ js ''em'')
              in Inr (self\<lparr>arraydef := (arraydef self)(''rowspacing'' \<mapsto>
                                           VStr (join_space rows))\<rparr>))
         | _ \<Rightarrow> Inl JsTypeError)
      else Inr self)"

definition checkLines :: "helpers \<Rightarrow> array_item \<Rightarrow> error + array_item" where
  "checkLines H self =
     (case checkLines_rowlines self of
        Inl e \<Rightarrow> Inl e
      | Inr self' \<Rightarrow> checkLines_rowspacing H self')"

text \<open>The number of entries of the \<^verbatim>\<open>rowlines\<close> pattern of an array item.\<close>

definition rowlines_entries :: "array_item \<Rightarrow> nat option" where
  "rowlines_entries self =
     (case arraydef self ''rowlines'' of
        Some (VStr s) \<Rightarrow> Some (length (split_space s))
      | _ \<Rightarrow> None)"

subsection \<open>The other classes\<close>

text \<open>
  The classes that only override the getters; each constructor is applied to the
  item that the constructor of the base class has built.
\<close>

definition StopItem :: "item \<Rightarrow> item" where
  "StopItem base = base\<lparr>kind := ''stop'', isClose := True\<rparr>"

definition CloseItem :: "item \<Rightarrow> item" where
  "CloseItem base = base\<lparr>kind := ''close'', isClose := True\<rparr>"

definition EndItem :: "item \<Rightarrow> item" where
  "EndItem base = base\<lparr>kind := ''end'', isClose := True\<rparr>"

definition OpenItem :: "item \<Rightarrow> item" where
  "OpenItem base =
     base\<lparr>kind := ''open'', isOpen := True,
          errors := (errors base)(''stop'' \<mapsto>
            [VStr (js ''ExtraOpenMissingClose''),
             VStr (js ''Extra open brace or missing close brace'')])\<rparr>"

definition BeginItem :: "item \<Rightarrow> item" where
  "BeginItem base = base\<lparr>kind := ''begin'', isOpen := True\<rparr>"

definition PrimeItem :: "item \<Rightarrow> item" where
  "PrimeItem base = base\<lparr>kind := ''prime''\<rparr>"

definition MmlItem :: "item \<Rightarrow> item" where
  "MmlItem base = base\<lparr>kind := ''mml'', isFinal := True\<rparr>"

definition FnItem :: "item \<Rightarrow> item" where
  "FnItem base = base\<lparr>kind := ''fn''\<rparr>"

definition NotItem :: "item \<Rightarrow> item" where
  "NotItem base = base\<lparr>kind := ''not''\<rparr>"

section \<open>Example inputs\<close>

text \<open>
  Stand-ins for the library parameters, and a few nodes and items, on which the
  theorems below are instantiated.
\<close>

definition example_toMml :: "item \<Rightarrow> bool \<Rightarrow> node" where
  "example_toMml it inferred = createNode ''mrow'' (map VNode (nodes it)) [] None"

definition example_fenced :: "val \<Rightarrow> node \<Rightarrow> val \<Rightarrow> node" where
  "example_fenced l mml r = createNode ''mrow'' [l, VNode mml, r] [] None"

definition example_getForm :: "node \<Rightarrow> int list option" where
  "example_getForm n =
     (case getAttribute n ''texClass'' of VNum k \<Rightarrow> Some [0, 0, k] | _ \<Rightarrow> None)"

fun example_child_text :: "val \<Rightarrow> jstring" where
  "example_child_text (VNode (TextNode s)) = s"
| "example_child_text v = []"

definition example_getText :: "node \<Rightarrow> jstring" where
  "example_getText n = concat (map example_child_text (getChildren n))"

definition example_remap :: "jstring \<rightharpoonup> jstring" where
  "example_remap = [js ''='' \<mapsto> [0x2260]]"

fun example_ToString :: "val \<Rightarrow> jstring" where
  "example_ToString (VStr s) = s"
| "example_ToString v = js ''?''"

definition example_helpers :: helpers where
  "example_helpers =
     \<lparr>toMml = example_toMml, fenced = example_fenced, fixedFence = example_fenced,
      isEmbellished = (\<lambda>n. False), getCoreMO = (\<lambda>n. n), getForm = example_getForm,
      getText = example_getText, remap = example_remap, msubsup_sup = (\<lambda>n. 2),
      TEXCLASS_NONE = VNum (- 1), TEXCLASS_REL = VNum 3, ApplyFunction = [0x2061],
      ToString = example_ToString\<rparr>"

definition example_base :: "node list \<Rightarrow> item" where
  "example_base ns =
     \<lparr>kind = ''base'', isOpen = False, isClose = False, isFinal = False,
      nodes = ns, properties = Map.empty, errors = Map.empty\<rparr>"

definition example_item :: "string \<Rightarrow> bool \<Rightarrow> bool \<Rightarrow> node list \<Rightarrow> item" where
  "example_item k opn cls ns = (example_base ns)\<lparr>kind := k, isOpen := opn, isClose := cls\<rparr>"

definition example_token :: "string \<Rightarrow> string \<Rightarrow> node" where
  "example_token k s = createNode k [] [] (Some (createText (js s)))"

definition example_array :: "node list \<Rightarrow> string \<Rightarrow> array_item" where
  "example_array rows lines =
     \<lparr>kind = ''array'', isOpen = True, isClose = False, isFinal = False,
      nodes = [], properties = Map.empty, errors = Map.empty,
      table = rows, row = [], frame = [], hfill = [],
      arraydef = [''rowlines'' \<mapsto> VStr (js lines)], dashed = False\<rparr>"

definition example_rows :: "nat \<Rightarrow> node list" where
  "example_rows n = replicate n (createNode ''mtr'' [] [] None)"

definition example_begin :: "string \<Rightarrow> item" where
  "example_begin nm =
     (BeginItem (example_base [example_token ''mi'' ''x'']))
       \<lparr>properties := [''name'' \<mapsto> VStr (js nm)]\<rparr>"

definition example_end :: "string \<Rightarrow> item" where
  "example_end nm = (EndItem (example_base []))\<lparr>properties := [''name'' \<mapsto> VStr (js nm)]\<rparr>"

definition example_fn :: "string \<Rightarrow> item" where
  "example_fn s = FnItem (example_base [example_token ''mi'' s])"

definition example_mml :: "node \<Rightarrow> item" where
  "example_mml n = MmlItem (example_base [n])"

definition example_mo :: "string \<Rightarrow> int \<Rightarrow> node" where
  "example_mo s c = createNode ''mo'' [] [(''texClass'', VNum c)] (Some (createText (js s)))"

definition example_prime :: "node \<Rightarrow> item" where
  "example_prime b = PrimeItem (example_base [b, example_token ''mo'' ''*''])"

definition example_subsup :: "node \<Rightarrow> int \<Rightarrow> item" where
  "example_subsup b pos =
     (SubsupItem (example_base [b]))
       \<lparr>properties := [''position'' \<mapsto> VNum pos,
                       ''primes'' \<mapsto> VNode (example_token ''mo'' ''*'')]\<rparr>"

section \<open>Properties\<close>

subsection \<open>Arrays and strings\<close>

lemma js_nth_simps:
  "js_nth [] i = None"
  "js_nth (x # xs) 0 = Some x"
  "js_nth (x # xs) (Suc n) = js_nth xs n"
  by (simp_all add: js_nth_def)

lemma split_space_nonempty: "split_space s \<noteq> []"
  by (induction s) (auto split: list.splits)

lemma split_space_append:
  "split_space (xs @ 0x20 # ys) = split_space xs @ split_space ys"
  using split_space_nonempty by (induction xs) (auto split: list.splits)

lemma split_none: "split_space (js ''none'') = [js ''none'']"
  by (simp add: js_def)

lemma js_space_none: "js '' none'' = 0x20 # js ''none''"
  by (simp add: js_def)

lemma split_pad: "split_space (s @ js '' none'') = split_space s @ [js ''none'']"
  by (simp add: js_space_none split_space_append split_none)

subsection \<open>The row lines of an array\<close>

lemma checkLines_rowspacing_cases:
  "case checkLines_rowspacing H a of
     Inl e \<Rightarrow> e = JsTypeError \<and> truthy (getProperty a ''rowspacing'')
   | Inr a' \<Rightarrow> arraydef a' ''rowlines'' = arraydef a ''rowlines'' \<and>
               table a' = table a \<and> frame a' = frame a"
  by (simp add: checkLines_rowspacing_def Let_def split: val.splits)

text \<open>
  Claim C1, as the code has it. \<^verbatim>\<open>checkLines\<close> does not pad the \<^verbatim>\<open>rowlines\<close>
  pattern up to the number of rows. With a pattern of \<open>n\<close> entries and \<open>m\<close> rows:
  when \<open>n = m\<close> the last entry is dropped and \<^verbatim>\<open>bottom\<close> is added to the frame; when
  \<open>n < m - 1\<close> exactly one entry \<^verbatim>\<open>none\<close> is appended; otherwise the pattern is left
  as it is. The only failure of \<^verbatim>\<open>checkLines\<close> is the type error of its second
  statement, on an item whose \<^verbatim>\<open>rowspacing\<close> property is set.
\<close>

theorem checkLines_rowlines_pattern:
  assumes "arraydef self ''rowlines'' = Some (VStr s)" and "s \<noteq> []"
  shows "case checkLines H self of
           Inl e \<Rightarrow> e = JsTypeError \<and> truthy (getProperty self ''rowspacing'')
         | Inr self' \<Rightarrow>
             table self' = table self \<and>
             (if length (split_space s) = length (table self) then
                arraydef self' ''rowlines'' = Some (VStr (join_space (butlast (split_space s)))) \<and>
                frame self' = frame self @ [js ''bottom'']
              else if int (length (split_space s)) < int (length (table self)) - 1 then
                arraydef self' ''rowlines'' = Some (VStr (s @ js '' none'')) \<and>
                rowlines_entries self' = Some (length (split_space s) + 1) \<and>
                frame self' = frame self
              else
                arraydef self' ''rowlines'' = Some (VStr s) \<and> frame self' = frame self)"
proof -
  let ?n = "length (split_space s)"
  let ?m = "length (table self)"
  consider (eq) "?n = ?m" | (lt) "?n \<noteq> ?m" "int ?n < int ?m - 1"
    | (other) "?n \<noteq> ?m" "\<not> int ?n < int ?m - 1"
    by blast
  then show ?thesis
  proof cases
    case eq
    let ?a = "self\<lparr>frame := frame self @ [js ''bottom''],
                    arraydef := (arraydef self)(''rowlines'' \<mapsto>
                                   VStr (join_space (butlast (split_space s))))\<rparr>"
    have 1: "checkLines H self = checkLines_rowspacing H ?a"
      using assms eq by (simp add: checkLines_def checkLines_rowlines_def arraydef_get_def)
    show ?thesis
      using checkLines_rowspacing_cases [where H = H and a = ?a] eq
      by (simp add: 1 getProperty_def split: sum.splits)
  next
    case lt
    let ?a = "self\<lparr>arraydef := (arraydef self)(''rowlines'' \<mapsto> VStr (s @ js '' none''))\<rparr>"
    have 1: "checkLines H self = checkLines_rowspacing H ?a"
      using assms lt by (simp add: checkLines_def checkLines_rowlines_def arraydef_get_def)
    show ?thesis
      using checkLines_rowspacing_cases [where H = H and a = ?a] lt
      by (simp add: 1 getProperty_def rowlines_entries_def split_pad split: sum.splits)
  next
    case other
    have 1: "checkLines H self = checkLines_rowspacing H self"
      using assms other by (simp add: checkLines_def checkLines_rowlines_def arraydef_get_def)
    show ?thesis
      using checkLines_rowspacing_cases [where H = H and a = self] other assms
      by (simp add: 1 split: sum.splits)
  qed
qed

text \<open>
  Four rows and the pattern \<^verbatim>\<open>solid\<close>: one \<^verbatim>\<open>none\<close> is appended, two entries. Two
  rows and two entries: the last entry becomes the bottom of the frame. Three rows and
  two entries: nothing changes.
\<close>

theorem checkLines_rowlines_pattern_witness:
  "(case checkLines example_helpers (example_array (example_rows 4) ''solid'') of
      Inl e \<Rightarrow> False
    | Inr a \<Rightarrow> arraydef a ''rowlines'' = Some (VStr (js ''solid none'')) \<and>
               rowlines_entries a = Some 2 \<and> length (table a) = 4 \<and> frame a = []) \<and>
   (case checkLines example_helpers (example_array (example_rows 2) ''solid dashed'') of
      Inl e \<Rightarrow> False
    | Inr a \<Rightarrow> arraydef a ''rowlines'' = Some (VStr (js ''solid'')) \<and>
               length (table a) = 2 \<and> frame a = [js ''bottom'']) \<and>
   (case checkLines example_helpers (example_array (example_rows 3) ''solid dashed'') of
      Inl e \<Rightarrow> False
    | Inr a \<Rightarrow> arraydef a ''rowlines'' = Some (VStr (js ''solid dashed'')) \<and>
               length (table a) = 3 \<and> frame a = [])"
proof -
  have h1: "arraydef (example_array rs l) ''rowlines'' = Some (VStr (js l))" for rs l
    by (simp add: example_array_def)
  have h2: "js ''solid'' \<noteq> []" "js ''solid dashed'' \<noteq> []"
    by (simp_all add: js_def)
  have h3: "\<not> truthy (getProperty (example_array rs l) ''rowspacing'')" for rs l
    by (simp add: getProperty_def example_array_def)
  have h4: "length (table (example_array (example_rows n) l)) = n"
    "frame (example_array (example_rows n) l) = []" for n l
    by (simp_all add: example_array_def example_rows_def)
  have h5: "split_space (js ''solid'') = [js ''solid'']"
    "split_space (js ''solid dashed'') = [js ''solid'', js ''dashed'']"
    by (simp_all add: js_def)
  have h6: "js ''solid'' @ js '' none'' = js ''solid none''"
    by (simp add: js_def)
  show ?thesis
    using checkLines_rowlines_pattern [OF h1 h2(1), where H = example_helpers
        and rs1 = "example_rows 4"]
      checkLines_rowlines_pattern [OF h1 h2(2), where H = example_helpers
        and rs1 = "example_rows 2"]
      checkLines_rowlines_pattern [OF h1 h2(2), where H = example_helpers
        and rs1 = "example_rows 3"]
      h3
    by (simp add: h4 h5 h6 split: sum.splits)
qed

text \<open>
  Two rows and the pattern \<^verbatim>\<open>solid\<close> of one entry: \<^verbatim>\<open>checkLines\<close> returns the item
  as it was, the pattern still has one entry.
\<close>

theorem checkLines_counterexample:
  "checkLines example_helpers (example_array (example_rows 2) ''solid'') =
     Inr (example_array (example_rows 2) ''solid'') \<and>
   rowlines_entries (example_array (example_rows 2) ''solid'') = Some 1 \<and>
   length (table (example_array (example_rows 2) ''solid'')) = 2"
  by (simp add: checkLines_def checkLines_rowlines_def checkLines_rowspacing_def
      example_array_def example_rows_def arraydef_get_def getProperty_def rowlines_entries_def
      js_def)

subsection \<open>Fractions\<close>

text \<open>
  Claim C4. For every over item, \<^verbatim>\<open>checkItem\<close> on an incoming item of kind \<^verbatim>\<open>over\<close>
  raises the error \<^verbatim>\<open>AmbiguousUseOf\<close>, "Ambiguous use of %1", with the name of the
  incoming item.
\<close>

theorem OverItem_checkItem_over:
  "kind it = ''over'' \<Longrightarrow>
   OverItem_checkItem H self it =
     Inl (TexError [VStr (js ''AmbiguousUseOf''), VStr (js ''Ambiguous use of %1''), getName it])"
  by (simp add: OverItem_checkItem_def isKind_def)

theorem OverItem_checkItem_over_witness:
  "kind (OverItem (example_base [])) = ''over'' \<and>
   OverItem_checkItem example_helpers (OverItem (example_base [example_token ''mi'' ''a'']))
       (OverItem (example_base [])) =
     Inl (TexError [VStr (js ''AmbiguousUseOf''), VStr (js ''Ambiguous use of %1''),
                    VStr (js (backslash # ''over''))])"
  using OverItem_checkItem_over [where it = "OverItem (example_base [])" and H = example_helpers
      and self = "OverItem (example_base [example_token ''mi'' ''a''])"]
  by (simp add: OverItem_def example_base_def getName_def getProperty_def)

subsection \<open>Helper facts on arrays, payloads and the operator table\<close>

lemma js_nth_js_set_same: "js_nth (js_set xs i v) i = Some v"
  by (simp add: js_nth_def js_set_def nth_append)

lemma length_js_set: "length (js_set xs i v) = max (length xs) (Suc i)"
  by (simp add: js_set_def)

lemma js_nth_js_set_below:
  "j < i \<Longrightarrow>
   js_nth (js_set xs i v) j = Some (case js_nth xs j of None \<Rightarrow> VUndefined | Some x \<Rightarrow> x)"
  by (auto simp add: js_nth_def js_set_def nth_append)

lemma js_nth_js_set_above:
  "i < j \<Longrightarrow> js_nth (js_set xs i v) j = js_nth xs j"
  by (auto simp add: js_nth_def js_set_def nth_append)

lemma TopN_two: "TopN self 2 = drop (length (nodes self) - 2) (nodes self)"
  by (simp add: TopN_def Let_def nat_diff_distrib' max_def min_def)

lemma TopN_two_append: "nodes self = ns @ [b, p] \<Longrightarrow> TopN self 2 = [b, p]"
  by (simp add: TopN_two)

lemma form_flag_iff:
  "form_flag form =
     (case js_nth form 2 of None \<Rightarrow> False | Some k \<Rightarrow> k = 2 \<or> k = 3 \<or> k = 5 \<or> k = 6)"
proof (cases "js_nth form 2")
  case None
  then show ?thesis by (simp add: form_flag_def)
next
  case (Some k)
  consider "k < 0" | "k = 0" | "k = 1" | "k = 2" | "k = 3" | "k = 4" | "k = 5" | "k = 6"
    | "k = 7" | "k = 8" | "k = 9" | "10 \<le> k"
    by atomize_elim presburger
  then show ?thesis
  proof cases
    case 12
    then have "\<not> nat k < 10" by linarith
    with Some 12 show ?thesis by (simp add: form_flag_def fn_table_def js_nth_def)
  qed (use Some in \<open>simp_all add: form_flag_def fn_table_def js_nth_def\<close>)
qed

subsection \<open>Fractions, continued\<close>

text \<open>
  Claim C9. For every over item receiving a close item other than another over item,
  the reduction builds an mfrac node whose first child is the stored numerator
  (the property \<^verbatim>\<open>num\<close>) and whose second child is the remaining content built by
  \<^verbatim>\<open>toMml(false)\<close>; a \<^verbatim>\<open>thickness\<close> that is neither null nor undefined becomes the
  attribute \<^verbatim>\<open>linethickness\<close>; when the property \<^verbatim>\<open>open\<close> or \<^verbatim>\<open>close\<close> is set (truthy),
  the mfrac gets the property \<^verbatim>\<open>withDelims\<close> and is wrapped by \<^verbatim>\<open>fixedFence\<close> with
  the two delimiters; the result is the mml item of that node followed by the close
  item itself.
\<close>

theorem OverItem_checkItem_close:
  fixes H :: helpers and self it :: item
  defines "num \<equiv> getProperty self ''num''"
    and "thickness \<equiv> getProperty self ''thickness''"
    and "opn \<equiv> getProperty self ''open''"
    and "cls \<equiv> getProperty self ''close''"
  defines "attrs \<equiv> (if not_null thickness then [(''linethickness'', thickness)] else [])"
  assumes "kind it \<noteq> ''over''" and "isClose it"
  shows "OverItem_checkItem H self it =
           Inr (CList
             [EItem (factory_create_mml
                (if truthy opn \<or> truthy cls then
                   fixedFence H opn
                     (Element ''mfrac'' attrs [(''withDelims'', VBool True)]
                        [num, VNode (toMml H self False)])
                     cls
                 else Element ''mfrac'' attrs [] [num, VNode (toMml H self False)])),
              EItem it])"
  using assms
  by (simp add: OverItem_checkItem_def isKind_def createNode_def Let_def)

theorem OverItem_checkItem_close_witness:
  "OverItem_checkItem example_helpers
       ((OverItem (example_base [example_token ''mi'' ''b'']))
          \<lparr>properties := [''num'' \<mapsto> VNode (example_token ''mi'' ''a''),
                          ''thickness'' \<mapsto> VStr (js ''2pt'')]\<rparr>)
       (CloseItem (example_base [])) =
     Inr (CList
       [EItem (factory_create_mml
          (Element ''mfrac'' [(''linethickness'', VStr (js ''2pt''))] []
             [VNode (example_token ''mi'' ''a''),
              VNode (Element ''mrow'' [] [] [VNode (example_token ''mi'' ''b'')])])),
        EItem (CloseItem (example_base []))]) \<and>
   OverItem_checkItem example_helpers
       ((OverItem (example_base [example_token ''mi'' ''k'']))
          \<lparr>properties := [''num'' \<mapsto> VNode (example_token ''mi'' ''n''),
                          ''thickness'' \<mapsto> VNum 0,
                          ''open'' \<mapsto> VStr (js ''(''), ''close'' \<mapsto> VStr (js '')'')]\<rparr>)
       (StopItem (example_base [])) =
     Inr (CList
       [EItem (factory_create_mml
          (Element ''mrow'' [] []
             [VStr (js ''(''),
              VNode (Element ''mfrac'' [(''linethickness'', VNum 0)] [(''withDelims'', VBool True)]
                [VNode (example_token ''mi'' ''n''),
                 VNode (Element ''mrow'' [] [] [VNode (example_token ''mi'' ''k'')])]),
              VStr (js '')'')])),
        EItem (StopItem (example_base []))])"
  using OverItem_checkItem_close
    [where it = "CloseItem (example_base [])" and H = example_helpers
       and self = "(OverItem (example_base [example_token ''mi'' ''b'']))
          \<lparr>properties := [''num'' \<mapsto> VNode (example_token ''mi'' ''a''),
                          ''thickness'' \<mapsto> VStr (js ''2pt'')]\<rparr>"]
    OverItem_checkItem_close
    [where it = "StopItem (example_base [])" and H = example_helpers
       and self = "(OverItem (example_base [example_token ''mi'' ''k'']))
          \<lparr>properties := [''num'' \<mapsto> VNode (example_token ''mi'' ''n''),
                          ''thickness'' \<mapsto> VNum 0,
                          ''open'' \<mapsto> VStr (js ''(''), ''close'' \<mapsto> VStr (js '')'')]\<rparr>"]
  by (simp add: CloseItem_def StopItem_def OverItem_def example_base_def getProperty_def
      example_helpers_def example_toMml_def example_fenced_def createNode_def js_def)

subsection \<open>Environments\<close>

text \<open>
  Claim C3. For every begin item: an incoming end item whose name differs from the
  name of the begin item raises \<^verbatim>\<open>EnvBadEnd\<close> with both names; an incoming stop item
  raises \<^verbatim>\<open>EnvMissingEnd\<close> with the name of the begin item; an end item of the same
  name, on a begin item without the property \<^verbatim>\<open>end\<close>, reduces to the single mml item
  built by \<^verbatim>\<open>toMml\<close> from the accumulated nodes.
\<close>

theorem BeginItem_checkItem_end_stop:
  "(kind it = ''end'' \<and> getName it \<noteq> getName self \<longrightarrow>
      BeginItem_checkItem H self it =
        Inl (TexError [VStr (js ''EnvBadEnd''),
               VStr (js (backslash # ''begin{%1} ended with '' @ backslash # ''end{%2}'')),
               getName self, getName it])) \<and>
   (kind it = ''stop'' \<longrightarrow>
      BeginItem_checkItem H self it =
        Inl (TexError [VStr (js ''EnvMissingEnd''),
               VStr (js (''Missing '' @ backslash # ''end{%1}'')), getName self])) \<and>
   (kind it = ''end'' \<and> getName it = getName self \<and> \<not> truthy (getProperty self ''end'') \<longrightarrow>
      BeginItem_checkItem H self it = Inr (CItem (factory_create_mml (toMml H self True))))"
  by (simp add: BeginItem_checkItem_def isKind_def EnvBadEnd_def EnvMissingEnd_def)

theorem BeginItem_checkItem_end_stop_witness:
  "BeginItem_checkItem example_helpers (example_begin ''foo'') (example_end ''bar'') =
     Inl (TexError [VStr (js ''EnvBadEnd''),
            VStr (js (backslash # ''begin{%1} ended with '' @ backslash # ''end{%2}'')),
            VStr (js ''foo''), VStr (js ''bar'')]) \<and>
   BeginItem_checkItem example_helpers (example_begin ''foo'') (StopItem (example_base [])) =
     Inl (TexError [VStr (js ''EnvMissingEnd''),
            VStr (js (''Missing '' @ backslash # ''end{%1}'')), VStr (js ''foo'')]) \<and>
   BeginItem_checkItem example_helpers (example_begin ''foo'') (example_end ''foo'') =
     Inr (CItem (factory_create_mml
            (Element ''mrow'' [] [] [VNode (example_token ''mi'' ''x'')])))"
  using BeginItem_checkItem_end_stop
      [where H = example_helpers and self = "example_begin ''foo''" and it = "example_end ''bar''"]
    BeginItem_checkItem_end_stop
      [where H = example_helpers and self = "example_begin ''foo''"
         and it = "StopItem (example_base [])"]
    BeginItem_checkItem_end_stop
      [where H = example_helpers and self = "example_begin ''foo''" and it = "example_end ''foo''"]
  by (simp add: example_begin_def example_end_def BeginItem_def EndItem_def StopItem_def example_base_def
      getName_def getProperty_def example_helpers_def example_toMml_def createNode_def js_def)

subsection \<open>Fences\<close>

text \<open>
  Claim C8. For every left item, an incoming right item reduces to the single mml
  item of the fenced group built from the delimiter of the left item, the accumulated
  content and the delimiter of the right item. The constructor of the left item
  registers the error \<^verbatim>\<open>ExtraLeftMissingRight\<close> (extra left or missing right) for
  the kind \<^verbatim>\<open>stop\<close>, and a stop item reaching a left item fails with exactly that
  error (through the check of the base item).
\<close>

theorem LeftItem_checkItem_right_stop:
  "(kind it = ''right'' \<longrightarrow>
      LeftItem_checkItem H self it =
        Inr (CItem (factory_create_mml
               (fenced H (getProperty self ''delim'') (toMml H self True)
                  (getProperty it ''delim''))))) \<and>
   errors (LeftItem base) ''stop'' =
     Some [VStr (js ''ExtraLeftMissingRight''),
           VStr (js (''Extra '' @ backslash # ''left or missing '' @ backslash # ''right''))] \<and>
   (kind it = ''stop'' \<and> isClose it \<longrightarrow>
      LeftItem_checkItem H ((LeftItem base)\<lparr>nodes := ns, properties := ps\<rparr>) it =
        Inl (TexError [VStr (js ''ExtraLeftMissingRight''),
               VStr (js (''Extra '' @ backslash # ''left or missing '' @ backslash # ''right''))]))"
  by (simp add: LeftItem_checkItem_def isKind_def LeftItem_def BaseItem_checkItem_def
      ExtraLeftMissingRight_def)

theorem LeftItem_checkItem_right_stop_witness:
  "LeftItem_checkItem example_helpers (LeftItem (example_base [example_token ''mi'' ''x'']))
       (RightItem (example_base [])) =
     Inr (CItem (factory_create_mml
            (Element ''mrow'' [] []
               [VStr (js ''(''),
                VNode (Element ''mrow'' [] [] [VNode (example_token ''mi'' ''x'')]),
                VStr (js '')'')]))) \<and>
   LeftItem_checkItem example_helpers
       ((LeftItem (example_base []))
          \<lparr>nodes := [example_token ''mi'' ''x''], properties := [''delim'' \<mapsto> VStr (js ''['')]\<rparr>)
       (StopItem (example_base [])) =
     Inl (TexError [VStr (js ''ExtraLeftMissingRight''),
            VStr (js (''Extra '' @ backslash # ''left or missing '' @ backslash # ''right''))])"
  using LeftItem_checkItem_right_stop
      [where H = example_helpers and self = "LeftItem (example_base [example_token ''mi'' ''x''])"
         and it = "RightItem (example_base [])"]
    LeftItem_checkItem_right_stop
      [where H = example_helpers and base = "example_base []"
         and ns = "[example_token ''mi'' ''x'']" and ps = "[''delim'' \<mapsto> VStr (js ''['')]"
         and it = "StopItem (example_base [])"]
  by (simp add: LeftItem_def RightItem_def StopItem_def example_base_def getProperty_def
      example_helpers_def example_toMml_def example_fenced_def createNode_def)

subsection \<open>Scripts and primes\<close>




text \<open>
  Claim C5. A prime item whose base node is not an msubsup builds a new msup node
  with the base as first child and the prime glyph as second child. When the base
  is an msubsup, the prime glyph is written into the slot \<^verbatim>\<open>sup\<close> of that same node,
  which stays an msubsup. In the subsup item with position 2, queued primes are flagged
  \<^verbatim>\<open>variantForm\<close> and merged with the incoming node in one mrow, written into slot 2.
\<close>

theorem PrimeItem_checkItem_msup:
  assumes "nodes self = ns @ [b, p]"
  shows
  "(\<not> isType b ''msubsup'' \<longrightarrow>
      PrimeItem_checkItem H self it =
        Inr (CList [ENode (Element ''msup'' [] [] [VNode b, VNode p]), EItem it])) \<and>
   (isType b ''msubsup'' \<longrightarrow>
      PrimeItem_checkItem H self it =
        Inr (CList [ENode (setData b (msubsup_sup H b) (VNode p)), EItem it]) \<and>
      isType (setData b (msubsup_sup H b) (VNode p)) ''msubsup'' \<and>
      js_nth (getChildren (setData b (msubsup_sup H b) (VNode p))) (msubsup_sup H b) =
        Some (VNode p)) \<and>
   (kind it = ''mml'' \<and> Top sub = Some t \<and> getProperty sub ''primes'' = VNode pr \<and>
    getProperty sub ''position'' = VNum 2 \<longrightarrow>
      SubsupItem_checkItem H sub it =
        Inr (CItem (factory_create_mml
          (let merged = setData t 2
                 (VNode (Element ''mrow'' [] []
                    [VNode (setProperties pr [(''variantForm'', VBool True)]),
                     opt_val (Top it)]))
           in if not_null (getProperty sub ''movesupsub'')
              then setProperties merged [(''movesupsub'', getProperty sub ''movesupsub'')]
              else merged))))"
proof -
  have tops: "TopN self 2 = [b, p]"
    using assms by (rule TopN_two_append)
  have 1: "\<not> isType b ''msubsup'' \<longrightarrow>
      PrimeItem_checkItem H self it =
        Inr (CList [ENode (Element ''msup'' [] [] [VNode b, VNode p]), EItem it])"
    by (simp add: PrimeItem_checkItem_def tops js_nth_def createNode_def)
  have 2: "isType b ''msubsup'' \<longrightarrow>
      PrimeItem_checkItem H self it =
        Inr (CList [ENode (setData b (msubsup_sup H b) (VNode p)), EItem it]) \<and>
      isType (setData b (msubsup_sup H b) (VNode p)) ''msubsup'' \<and>
      js_nth (getChildren (setData b (msubsup_sup H b) (VNode p))) (msubsup_sup H b) =
        Some (VNode p)"
    by (cases b) (simp_all add: PrimeItem_checkItem_def tops js_nth_simps js_nth_js_set_same)
  have 3: "kind it = ''mml'' \<and> Top sub = Some t \<and> getProperty sub ''primes'' = VNode pr \<and>
    getProperty sub ''position'' = VNum 2 \<longrightarrow>
      SubsupItem_checkItem H sub it =
        Inr (CItem (factory_create_mml
          (let merged = setData t 2
                 (VNode (Element ''mrow'' [] []
                    [VNode (setProperties pr [(''variantForm'', VBool True)]),
                     opt_val (Top it)]))
           in if not_null (getProperty sub ''movesupsub'')
              then setProperties merged [(''movesupsub'', getProperty sub ''movesupsub'')]
              else merged)))"
    by (simp add: SubsupItem_checkItem_def SubsupItem_mml_def isKind_def createNode_def Let_def)
  from 1 2 3 show ?thesis by blast
qed

theorem PrimeItem_checkItem_msup_witness:
  "PrimeItem_checkItem example_helpers (example_prime (example_token ''mi'' ''a''))
       (StopItem (example_base [])) =
     Inr (CList [ENode (Element ''msup'' [] []
                   [VNode (example_token ''mi'' ''a''), VNode (example_token ''mo'' ''*'')]),
                 EItem (StopItem (example_base []))]) \<and>
   PrimeItem_checkItem example_helpers
       (example_prime (Element ''msubsup'' [] [] [VNode (example_token ''mi'' ''a'')]))
       (StopItem (example_base [])) =
     Inr (CList [ENode (Element ''msubsup'' [] []
                   [VNode (example_token ''mi'' ''a''), VUndefined,
                    VNode (example_token ''mo'' ''*'')]),
                 EItem (StopItem (example_base []))]) \<and>
   SubsupItem_checkItem example_helpers
       (example_subsup (Element ''msubsup'' [] [] [VNode (example_token ''mi'' ''a'')]) 2)
       (example_mml (example_token ''mo'' ''*'')) =
     Inr (CItem (factory_create_mml (Element ''msubsup'' [] []
            [VNode (example_token ''mi'' ''a''), VUndefined,
             VNode (Element ''mrow'' [] []
               [VNode (Element ''mo'' [] [(''variantForm'', VBool True)]
                         [VNode (TextNode (js ''*''))]),
                VNode (example_token ''mo'' ''*'')])])))"
proof -
  have n: "nodes (example_prime b) = [] @ [b, example_token ''mo'' ''*'']" for b
    by (simp add: example_prime_def PrimeItem_def example_base_def)
  have t: "\<not> isType (example_token ''mi'' ''a'') ''msubsup''"
    "example_token ''mo'' ''*'' = Element ''mo'' [] [] [VNode (TextNode (js ''*''))]"
    by (simp_all add: example_token_def createNode_def createText_def)
  have s: "msubsup_sup example_helpers b = 2" for b
    by (simp add: example_helpers_def)
  have m: "kind (example_mml x) = ''mml''" "Top (example_mml x) = Some x" for x
    by (simp_all add: example_mml_def MmlItem_def example_base_def Top_def)
  have p: "Top (example_subsup b 2) = Some b"
    "getProperty (example_subsup b 2) ''primes'' = VNode (example_token ''mo'' ''*'')"
    "getProperty (example_subsup b 2) ''position'' = VNum 2"
    "getProperty (example_subsup b 2) ''movesupsub'' = VUndefined" for b
    by (simp_all add: example_subsup_def SubsupItem_def example_base_def Top_def getProperty_def)
  show ?thesis
    using PrimeItem_checkItem_msup [OF n [of "example_token ''mi'' ''a''"], where H = example_helpers
        and it = "StopItem (example_base [])"]
      PrimeItem_checkItem_msup
        [OF n [of "Element ''msubsup'' [] [] [VNode (example_token ''mi'' ''a'')]"],
         where H = example_helpers and it = "StopItem (example_base [])"]
      PrimeItem_checkItem_msup [OF n [of "example_token ''mi'' ''a''"], where H = example_helpers
        and it = "example_mml (example_token ''mo'' ''*'')"
        and sub = "example_subsup (Element ''msubsup'' [] [] [VNode (example_token ''mi'' ''a'')]) 2"
        and t = "Element ''msubsup'' [] [] [VNode (example_token ''mi'' ''a'')]"
        and pr = "example_token ''mo'' ''*''"]
    by (simp add: t(1) s m p) (simp add: t(2) js_set_def numeral_2_eq_2)
qed

text \<open>
  Claim C10. For a subsup item with position 1 and queued primes, an incoming mml
  item gives a single mml item holding the base node, with the primes in child slot 2
  and the incoming node in child slot 1; the children before are kept.
\<close>

theorem SubsupItem_checkItem_prime_on_sub:
  fixes H :: helpers and self it :: item
  defines "m \<equiv> getProperty self ''movesupsub''"
  assumes "kind it = ''mml''" and "Top it = Some sub"
    and "Top self = Some (Element k as ps cs)"
    and "getProperty self ''position'' = VNum 1"
    and "getProperty self ''primes'' = VNode pr"
  shows
  "SubsupItem_checkItem H self it =
     Inr (CItem (factory_create_mml
       (Element k as (if not_null m then assign ''movesupsub'' m ps else ps)
          (js_set (js_set cs 2 (VNode pr)) 1 (VNode sub))))) \<and>
   js_nth (js_set (js_set cs 2 (VNode pr)) 1 (VNode sub)) 2 = Some (VNode pr) \<and>
   js_nth (js_set (js_set cs 2 (VNode pr)) 1 (VNode sub)) 1 = Some (VNode sub) \<and>
   length (js_set (js_set cs 2 (VNode pr)) 1 (VNode sub)) = max (length cs) 3 \<and>
   (cs \<noteq> [] \<longrightarrow> js_nth (js_set (js_set cs 2 (VNode pr)) 1 (VNode sub)) 0 = Some (cs ! 0))"
proof -
  have 1: "SubsupItem_checkItem H self it =
     Inr (CItem (factory_create_mml
       (Element k as (if not_null m then assign ''movesupsub'' m ps else ps)
          (js_set (js_set cs 2 (VNode pr)) 1 (VNode sub)))))"
    using assms(2-)
    by (simp add: SubsupItem_checkItem_def SubsupItem_mml_def isKind_def Let_def m_def)
  have 2: "js_nth (js_set (js_set cs 2 (VNode pr)) 1 (VNode sub)) 2 = Some (VNode pr)"
    by (simp add: js_nth_js_set_above js_nth_js_set_same)
  have 3: "js_nth (js_set (js_set cs 2 (VNode pr)) 1 (VNode sub)) 1 = Some (VNode sub)"
    by (simp add: js_nth_js_set_same)
  have 4: "length (js_set (js_set cs 2 (VNode pr)) 1 (VNode sub)) = max (length cs) 3"
    by (simp add: length_js_set)
  have 5: "cs \<noteq> [] \<longrightarrow> js_nth (js_set (js_set cs 2 (VNode pr)) 1 (VNode sub)) 0 = Some (cs ! 0)"
    by (cases cs) (simp_all add: js_nth_js_set_below js_nth_simps)
  from 1 2 3 4 5 show ?thesis by blast
qed

theorem SubsupItem_checkItem_prime_on_sub_witness:
  "SubsupItem_checkItem example_helpers
       (example_subsup (Element ''msubsup'' [] [] [VNode (example_token ''mi'' ''a'')]) 1)
       (example_mml (example_token ''mn'' ''1'')) =
     Inr (CItem (factory_create_mml (Element ''msubsup'' [] []
            [VNode (example_token ''mi'' ''a''), VNode (example_token ''mn'' ''1''),
             VNode (example_token ''mo'' ''*'')])))"
proof -
  have m: "kind (example_mml x) = ''mml''" "Top (example_mml x) = Some x" for x
    by (simp_all add: example_mml_def MmlItem_def example_base_def Top_def)
  have p: "Top (example_subsup b 1) = Some b"
    "getProperty (example_subsup b 1) ''primes'' = VNode (example_token ''mo'' ''*'')"
    "getProperty (example_subsup b 1) ''position'' = VNum 1"
    "getProperty (example_subsup b 1) ''movesupsub'' = VUndefined" for b
    by (simp_all add: example_subsup_def SubsupItem_def example_base_def Top_def getProperty_def)
  show ?thesis
    using SubsupItem_checkItem_prime_on_sub [OF m p(1) p(3) p(2), where H = example_helpers]
    by (simp add: p(4) js_set_def numeral_2_eq_2)
qed

subsection \<open>Function application\<close>

text \<open>
  Claim C2, as the code has it. A fn item with a non-empty payload that receives a
  non-open item inserts the apply-function operator (an mo of TeX class NONE) between
  the function node and the incoming item when the incoming item is another fn item,
  or is an mml item whose top node is not an mspace and whose core operator has no
  form or a form that the table sends to 0. The function node and the incoming item
  are pushed with no operator when the incoming item is not a fn item and is not an
  mml item or holds no node, or its top node is an mspace, or the form of its core
  operator is sent to 1 by the table (classes 2, 3, 5 and 6).
\<close>

theorem FnItem_checkItem_apply:
  fixes H :: helpers and self it :: item and m :: node
  defines "core \<equiv> (if isEmbellished H m then getCoreMO H m else m)"
  defines "suppress \<equiv> (case getForm H core of None \<Rightarrow> False | Some form \<Rightarrow> form_flag form)"
  defines "apply_node \<equiv>
     Element ''mo'' [(''texClass'', TEXCLASS_NONE H)] [] [VNode (TextNode (ApplyFunction H))]"
  assumes "Top self = Some f" and "\<not> isOpen it"
  shows
  "(kind it = ''fn'' \<longrightarrow>
      FnItem_checkItem H self it = Inr (CList [ENode f, ENode apply_node, EItem it])) \<and>
   (kind it \<noteq> ''fn'' \<and> (kind it \<noteq> ''mml'' \<or> Top it = None) \<longrightarrow>
      FnItem_checkItem H self it = Inr (CList [ENode f, EItem it])) \<and>
   (kind it = ''mml'' \<and> Top it = Some m \<and> isType m ''mspace'' \<longrightarrow>
      FnItem_checkItem H self it = Inr (CList [ENode f, EItem it])) \<and>
   (kind it = ''mml'' \<and> Top it = Some m \<and> \<not> isType m ''mspace'' \<longrightarrow>
      FnItem_checkItem H self it =
        (if suppress then Inr (CList [ENode f, EItem it])
         else Inr (CList [ENode f, ENode apply_node, EItem it]))) \<and>
   (\<forall>form. form_flag form =
      (case js_nth form 2 of None \<Rightarrow> False | Some c \<Rightarrow> c = 2 \<or> c = 3 \<or> c = 5 \<or> c = 6))"
proof -
  have 1: "kind it = ''fn'' \<longrightarrow>
      FnItem_checkItem H self it = Inr (CList [ENode f, ENode apply_node, EItem it])"
    using assms(4,5)
    by (simp add: FnItem_checkItem_def isKind_def apply_function_node_def createNode_def
        createText_def apply_node_def)
  have 2: "kind it \<noteq> ''fn'' \<and> (kind it \<noteq> ''mml'' \<or> Top it = None) \<longrightarrow>
      FnItem_checkItem H self it = Inr (CList [ENode f, EItem it])"
    using assms(4,5)
    by (auto simp add: FnItem_checkItem_def isKind_def split: option.splits)
  have 3: "kind it = ''mml'' \<and> Top it = Some m \<and> isType m ''mspace'' \<longrightarrow>
      FnItem_checkItem H self it = Inr (CList [ENode f, EItem it])"
    using assms(4,5)
    by (simp add: FnItem_checkItem_def isKind_def)
  have 4: "kind it = ''mml'' \<and> Top it = Some m \<and> \<not> isType m ''mspace'' \<longrightarrow>
      FnItem_checkItem H self it =
        (if suppress then Inr (CList [ENode f, EItem it])
         else Inr (CList [ENode f, ENode apply_node, EItem it]))"
    using assms(4,5)
    by (simp add: FnItem_checkItem_def isKind_def apply_function_node_def createNode_def
        createText_def apply_node_def suppress_def core_def Let_def split: option.splits)
  have 5: "\<forall>form. form_flag form =
      (case js_nth form 2 of None \<Rightarrow> False | Some c \<Rightarrow> c = 2 \<or> c = 3 \<or> c = 5 \<or> c = 6)"
    using form_flag_iff by blast
  from 1 2 3 4 5 show ?thesis by blast
qed

theorem FnItem_checkItem_apply_witness:
  "FnItem_checkItem example_helpers (example_fn ''sin'') (example_mml (example_token ''mi'' ''x'')) =
     Inr (CList [ENode (example_token ''mi'' ''sin''),
                 ENode (Element ''mo'' [(''texClass'', VNum (- 1))] [] [VNode (TextNode [0x2061])]),
                 EItem (example_mml (example_token ''mi'' ''x''))]) \<and>
   FnItem_checkItem example_helpers (example_fn ''sin'') (example_mml (example_mo ''+'' 2)) =
     Inr (CList [ENode (example_token ''mi'' ''sin''), EItem (example_mml (example_mo ''+'' 2))]) \<and>
   FnItem_checkItem example_helpers (example_fn ''sin'') (example_mml (createNode ''mspace'' [] [] None)) =
     Inr (CList [ENode (example_token ''mi'' ''sin''),
                 EItem (example_mml (createNode ''mspace'' [] [] None))]) \<and>
   FnItem_checkItem example_helpers (example_fn ''sin'') (StopItem (example_base [])) =
     Inr (CList [ENode (example_token ''mi'' ''sin''), EItem (StopItem (example_base []))]) \<and>
   FnItem_checkItem example_helpers (example_fn ''sin'') (example_fn ''log'') =
     Inr (CList [ENode (example_token ''mi'' ''sin''),
                 ENode (Element ''mo'' [(''texClass'', VNum (- 1))] [] [VNode (TextNode [0x2061])]),
                 EItem (example_fn ''log'')])"
proof -
  have d: "\<not> isOpen (example_fn ''log'')" "kind (example_fn ''log'') = ''fn''"
    by (simp_all add: example_fn_def FnItem_def example_base_def)
  have top: "Top (example_fn ''sin'') = Some (example_token ''mi'' ''sin'')"
    by (simp add: example_fn_def FnItem_def example_base_def Top_def)
  have a: "\<not> isOpen (example_mml n)" "kind (example_mml n) = ''mml''" "Top (example_mml n) = Some n" for n
    by (simp_all add: example_mml_def MmlItem_def example_base_def Top_def)
  have b: "\<not> isOpen (StopItem (example_base []))" "kind (StopItem (example_base [])) = ''stop''"
    by (simp_all add: StopItem_def example_base_def)
  have f1: "getForm example_helpers (example_token ''mi'' ''x'') = None"
    by (simp add: example_helpers_def example_getForm_def example_token_def createNode_def)
  have f2: "getForm example_helpers (example_mo ''+'' 2) = Some [0, 0, 2]"
    by (simp add: example_helpers_def example_getForm_def example_mo_def createNode_def)
  have e: "\<not> isEmbellished example_helpers n" for n
    by (simp add: example_helpers_def)
  have c: "TEXCLASS_NONE example_helpers = VNum (- 1)" "ApplyFunction example_helpers = [0x2061]"
    by (simp_all add: example_helpers_def)
  have t: "\<not> isType (example_token ''mi'' ''x'') ''mspace''"
    "\<not> isType (example_mo ''+'' 2) ''mspace''" "isType (createNode ''mspace'' [] [] None) ''mspace''"
    by (simp_all add: example_token_def example_mo_def createNode_def)
  show ?thesis
    using FnItem_checkItem_apply [OF top a(1), where H = example_helpers
        and n1 = "example_token ''mi'' ''x''" and m = "example_token ''mi'' ''x''"]
      FnItem_checkItem_apply [OF top a(1), where H = example_helpers
        and n1 = "example_mo ''+'' 2" and m = "example_mo ''+'' 2"]
      FnItem_checkItem_apply [OF top a(1), where H = example_helpers
        and n1 = "createNode ''mspace'' [] [] None" and m = "createNode ''mspace'' [] [] None"]
      FnItem_checkItem_apply [OF top b(1), where H = example_helpers]
      FnItem_checkItem_apply [OF top d(1), where H = example_helpers]
    by (simp add: a b d f1 f2 e c t form_flag_iff js_nth_simps numeral_2_eq_2)
qed

text \<open>A fn item receiving another fn item: the operator is inserted.\<close>

theorem FnItem_checkItem_counterexample:
  "kind (example_fn ''cos'') = ''fn'' \<and> \<not> isOpen (example_fn ''cos'') \<and>
   Top (example_fn ''sin'') = Some (example_token ''mi'' ''sin'') \<and>
   FnItem_checkItem example_helpers (example_fn ''sin'') (example_fn ''cos'') =
     Inr (CList [ENode (example_token ''mi'' ''sin''),
                 ENode (Element ''mo'' [(''texClass'', VNum (- 1))] [] [VNode (TextNode [0x2061])]),
                 EItem (example_fn ''cos'')])"
  by (simp add: example_fn_def FnItem_def example_base_def FnItem_checkItem_def Top_def isKind_def
      apply_function_node_def createNode_def createText_def example_helpers_def)

subsection \<open>Negation\<close>

text \<open>
  Claim C7. For a not item receiving an mml item whose top node is an mo, mi or mtext
  with exactly one child, a text of length 1 and no \<^verbatim>\<open>movesupsub\<close>: when the character
  is in \<^verbatim>\<open>not_remap\<close> the child is replaced by the remapped glyph, else U+0338 is
  appended to the token, and the incoming mml item is returned. For every other shape
  of the top node of the incoming mml item the overlay (a TeXAtom of class REL around
  a width-0 mpadded around an mtext of U+29F8) is pushed before the incoming item.
\<close>

theorem NotItem_checkItem_cases:
  fixes H :: helpers and self it :: item and m :: node
  defines "token \<equiv> isType m ''mo'' \<or> isType m ''mi'' \<or> isType m ''mtext''"
  defines "single \<equiv> length (getText H m) = 1 \<and> \<not> truthy (node_getProperty m ''movesupsub'') \<and>
                     length (getChildren m) = 1"
  defines "overlay \<equiv>
     Element ''TeXAtom'' [(''texClass'', TEXCLASS_REL H)] []
       [VNode (Element ''mpadded'' [(''width'', VNum 0)] []
          [VNode (Element ''mtext'' [] [] [VNode (TextNode [0x29F8])])])]"
  assumes "kind it = ''mml''" and "Top it = Some m"
  shows
  "(token \<and> single \<and> remap H (getText H m) = Some r \<longrightarrow>
      NotItem_checkItem H self it =
        Inr (CItem (with_Top it (setData m 0 (VNode (TextNode r))))) \<and>
      kind (with_Top it (setData m 0 (VNode (TextNode r)))) = ''mml'' \<and>
      getChildren (setData m 0 (VNode (TextNode r))) = [VNode (TextNode r)]) \<and>
   (token \<and> single \<and> remap H (getText H m) = None \<longrightarrow>
      NotItem_checkItem H self it =
        Inr (CItem (with_Top it (appendChildren m [VNode (TextNode [0x0338])]))) \<and>
      kind (with_Top it (appendChildren m [VNode (TextNode [0x0338])])) = ''mml'' \<and>
      getChildren (appendChildren m [VNode (TextNode [0x0338])]) =
        getChildren m @ [VNode (TextNode [0x0338])]) \<and>
   (\<not> (token \<and> single) \<longrightarrow>
      NotItem_checkItem H self it = Inr (CList [ENode overlay, EItem it]))"
proof -
  have ov: "not_overlay H = overlay"
    by (simp add: not_overlay_def overlay_def createNode_def createText_def)
  have 2: "token \<and> single \<and> remap H (getText H m) = Some r \<longrightarrow>
      NotItem_checkItem H self it =
        Inr (CItem (with_Top it (setData m 0 (VNode (TextNode r))))) \<and>
      kind (with_Top it (setData m 0 (VNode (TextNode r)))) = ''mml'' \<and>
      getChildren (setData m 0 (VNode (TextNode r))) = [VNode (TextNode r)]"
  proof (cases m)
    case (Element k as ps cs)
    have "length cs = 1 \<Longrightarrow> js_set cs 0 v = [v]" for v
      by (cases cs) (simp_all add: js_set_def)
    with Element assms(4,5) show ?thesis
      by (simp add: NotItem_checkItem_def isKind_def token_def single_def createText_def
          with_Top_def)
  next
    case (TextNode s)
    then show ?thesis by (simp add: token_def)
  qed
  have 3: "token \<and> single \<and> remap H (getText H m) = None \<longrightarrow>
      NotItem_checkItem H self it =
        Inr (CItem (with_Top it (appendChildren m [VNode (TextNode [0x0338])]))) \<and>
      kind (with_Top it (appendChildren m [VNode (TextNode [0x0338])])) = ''mml'' \<and>
      getChildren (appendChildren m [VNode (TextNode [0x0338])]) =
        getChildren m @ [VNode (TextNode [0x0338])]"
    using assms(4,5)
    by (cases m)
      (simp_all add: NotItem_checkItem_def isKind_def token_def single_def createText_def
        with_Top_def)
  have 4: "\<not> (token \<and> single) \<longrightarrow>
      NotItem_checkItem H self it = Inr (CList [ENode overlay, EItem it])"
    using assms(4,5)
    by (auto simp add: NotItem_checkItem_def isKind_def token_def single_def ov Let_def)
  from 2 3 4 show ?thesis by blast
qed

theorem NotItem_checkItem_cases_witness:
  "NotItem_checkItem example_helpers (NotItem (example_base []))
       (example_mml (example_token ''mo'' ''='')) =
     Inr (CItem (example_mml (Element ''mo'' [] [] [VNode (TextNode [0x2260])]))) \<and>
   NotItem_checkItem example_helpers (NotItem (example_base []))
       (example_mml (example_token ''mi'' ''x'')) =
     Inr (CItem (example_mml (Element ''mi'' [] []
                           [VNode (TextNode (js ''x'')), VNode (TextNode [0x0338])]))) \<and>
   NotItem_checkItem example_helpers (NotItem (example_base []))
       (example_mml (example_token ''mi'' ''sin'')) =
     Inr (CList [ENode (Element ''TeXAtom'' [(''texClass'', VNum 3)] []
                   [VNode (Element ''mpadded'' [(''width'', VNum 0)] []
                      [VNode (Element ''mtext'' [] [] [VNode (TextNode [0x29F8])])])]),
                 EItem (example_mml (example_token ''mi'' ''sin''))]) \<and>
   NotItem_checkItem example_helpers (NotItem (example_base []))
       (example_mml (createNode ''mrow'' [] [] None)) =
     Inr (CList [ENode (Element ''TeXAtom'' [(''texClass'', VNum 3)] []
                   [VNode (Element ''mpadded'' [(''width'', VNum 0)] []
                      [VNode (Element ''mtext'' [] [] [VNode (TextNode [0x29F8])])])]),
                 EItem (example_mml (createNode ''mrow'' [] [] None))])"
proof -
  have a: "kind (example_mml n) = ''mml''" "Top (example_mml n) = Some n"
    "with_Top (example_mml n) n' = example_mml n'" for n n'
    by (simp_all add: example_mml_def MmlItem_def example_base_def Top_def with_Top_def)
  have t: "example_token k s = Element k [] [] [VNode (TextNode (js s))]" for k s
    by (simp add: example_token_def createNode_def createText_def)
  have g: "getText example_helpers (example_token k s) = js s" for k s
    by (simp add: t example_helpers_def example_getText_def)
  have r: "remap example_helpers (js ''='') = Some [0x2260]"
    "remap example_helpers (js ''x'') = None"
    by (simp_all add: example_helpers_def example_remap_def js_def)
  have c: "TEXCLASS_REL example_helpers = VNum 3"
    by (simp add: example_helpers_def)
  have l: "length (js ''='') = 1" "length (js ''x'') = 1" "length (js ''sin'') = 3"
    by (simp_all add: js_def)
  have n: "\<not> isType (createNode ''mrow'' [] [] None) ''mo''"
    "\<not> isType (createNode ''mrow'' [] [] None) ''mi''"
    "\<not> isType (createNode ''mrow'' [] [] None) ''mtext''"
    by (simp_all add: createNode_def)
  show ?thesis
    using NotItem_checkItem_cases [OF a(1) [of "example_token ''mo'' ''=''"] a(2) [of "example_token ''mo'' ''=''"],
        where H = example_helpers and self = "NotItem (example_base [])" and r = "[0x2260]"]
      NotItem_checkItem_cases [OF a(1) [of "example_token ''mi'' ''x''"] a(2) [of "example_token ''mi'' ''x''"],
        where H = example_helpers and self = "NotItem (example_base [])"]
      NotItem_checkItem_cases [OF a(1) [of "example_token ''mi'' ''sin''"] a(2) [of "example_token ''mi'' ''sin''"],
        where H = example_helpers and self = "NotItem (example_base [])"]
      NotItem_checkItem_cases [OF a(1) [of "createNode ''mrow'' [] [] None"] a(2) [of "createNode ''mrow'' [] [] None"],
        where H = example_helpers and self = "NotItem (example_base [])"]
    by (simp add: a g r c l n) (simp add: t js_set_def)
qed

end
